theory Spec2Isabelle
  imports Main "HOL-Library.Sublist"
begin

section \<open>JavaScript values and the host environment\<close>

text \<open>
  The sources are untyped JavaScript, so every argument, event and stored document is a
  dynamic value. Numbers are kept abstract (type \<open>'n\<close>): the host record supplies
  which numbers are falsy (\<open>+0\<close>, \<open>-0\<close>, \<open>NaN\<close>), the conversion of a string to a
  number and back, and the literals the code writes. An object is an association list in
  property order; \<open>JFun\<close> is an opaque host function such as an event's
  \<open>preventDefault\<close>.
\<close>

datatype 'n jsval =
    JUndefined
  | JNull
  | JBool bool
  | JNum 'n
  | JStr string
  | JFun string
  | JArr "'n jsval list"
  | JObj "(string \<times> 'n jsval) list"

datatype exn = TypeError | SyntaxError | StorageError | HostError

text \<open>
  What the code reads from the browser and never changes: the number primitives, the
  clock, \<open>JSON.parse\<close> and \<open>JSON.stringify\<close> (each may throw), the location (path,
  full URL and the query parameters as \<open>URLSearchParams.get\<close> returns them), the
  document title, whether \<open>window.innerWidth <= 768\<close> or the user agent names a
  mobile device (\<open>is_mobile\<close>), and the globals \<open>window.user\<close> and
  \<open>window.products\<close>. The normalizer calls \<open>window.adl.getPageType\<close> and
  \<open>window.adl.buildCustData\<close> only after testing that they are functions:
  \<open>adl_getPageType\<close> and \<open>adl_buildCustData\<close> are \<open>None\<close> when they are not,
  and otherwise the outcome of the call, a value or an exception.
\<close>

record 'n host =
  num_falsy :: "'n \<Rightarrow> bool"
  num_of_string :: "string \<Rightarrow> 'n"
  string_of_num :: "'n \<Rightarrow> string"
  num_zero :: 'n
  num_one :: 'n
  num_nan :: 'n
  date_now :: 'n
  JSON_parse :: "string \<Rightarrow> exn + 'n jsval"
  JSON_stringify :: "'n jsval \<Rightarrow> exn + string"
  loc_pathname :: string
  loc_href :: string
  loc_query :: "string \<Rightarrow> string option"
  doc_title :: string
  is_mobile :: bool
  window_user :: "'n jsval"
  window_products :: "'n jsval"
  adl_getPageType :: "(exn + 'n jsval) option"
  adl_buildCustData :: "(exn + 'n jsval) option"

text \<open>Truthiness, as \<open>!x\<close>, \<open>x || y\<close> and \<open>x && y\<close> read it.\<close>

fun js_truthy :: "'n host \<Rightarrow> 'n jsval \<Rightarrow> bool" where
  "js_truthy B JUndefined = False"
| "js_truthy B JNull = False"
| "js_truthy B (JBool b) = b"
| "js_truthy B (JNum n) = (\<not> num_falsy B n)"
| "js_truthy B (JStr s) = (s \<noteq> [])"
| "js_truthy B (JFun f) = True"
| "js_truthy B (JArr xs) = True"
| "js_truthy B (JObj kvs) = True"

definition js_or :: "'n host \<Rightarrow> 'n jsval \<Rightarrow> 'n jsval \<Rightarrow> 'n jsval" where
  "js_or B a b = (if js_truthy B a then a else b)"

definition js_and :: "'n host \<Rightarrow> 'n jsval \<Rightarrow> 'n jsval \<Rightarrow> 'n jsval" where
  "js_and B a b = (if js_truthy B a then b else a)"

text \<open>
  Property read \<open>x.k\<close>. On \<open>undefined\<close> and \<open>null\<close> it throws a TypeError; on any
  other value without the property it is \<open>undefined\<close>. Strings, arrays and functions
  are taken to have none of the properties the code reads by name; the length and the
  entries of an array are read from the list. \<open>js_prop\<close> is the read where the code
  has made sure that it cannot throw, \<open>get_prop\<close> the read that can.
\<close>

fun js_prop :: "'n jsval \<Rightarrow> string \<Rightarrow> 'n jsval" where
  "js_prop (JObj kvs) k = (case map_of kvs k of Some v \<Rightarrow> v | None \<Rightarrow> JUndefined)"
| "js_prop v k = JUndefined"

fun get_prop :: "'n jsval \<Rightarrow> string \<Rightarrow> exn + 'n jsval" where
  "get_prop JUndefined k = Inl TypeError"
| "get_prop JNull k = Inl TypeError"
| "get_prop v k = Inr (js_prop v k)"

fun is_object :: "'n jsval \<Rightarrow> bool" where
  "is_object (JObj kvs) = True"
| "is_object (JArr xs) = True"
| "is_object JNull = True"
| "is_object v = False"

fun join_with :: "string \<Rightarrow> string list \<Rightarrow> string" where
  "join_with sep [] = []"
| "join_with sep [x] = x"
| "join_with sep (x # y # ys) = x @ sep @ join_with sep (y # ys)"

text \<open>\<open>String(x)\<close> and the string a value becomes under \<open>+\<close> with a string.\<close>

fun js_toString :: "'n host \<Rightarrow> 'n jsval \<Rightarrow> string" where
  "js_toString B JUndefined = ''undefined''"
| "js_toString B JNull = ''null''"
| "js_toString B (JBool b) = (if b then ''true'' else ''false'')"
| "js_toString B (JNum n) = string_of_num B n"
| "js_toString B (JStr s) = s"
| "js_toString B (JFun f) = f"
| "js_toString B (JArr xs) =
     join_with '','' (map (\<lambda>x. if x = JUndefined \<or> x = JNull then [] else js_toString B x) xs)"
| "js_toString B (JObj kvs) = ''[object Object]''"

text \<open>\<open>Number(x)\<close>.\<close>

fun js_Number :: "'n host \<Rightarrow> 'n jsval \<Rightarrow> 'n" where
  "js_Number B JUndefined = num_nan B"
| "js_Number B JNull = num_zero B"
| "js_Number B (JBool b) = (if b then num_one B else num_zero B)"
| "js_Number B (JNum n) = n"
| "js_Number B (JStr s) = num_of_string B s"
| "js_Number B (JFun f) = num_nan B"
| "js_Number B (JArr xs) = num_of_string B (js_toString B (JArr xs))"
| "js_Number B (JObj kvs) = num_of_string B (js_toString B (JObj kvs))"

definition str_includes :: "string \<Rightarrow> string \<Rightarrow> bool" where
  "str_includes hay needle = sublist needle hay"

text \<open>\<open>s.toLowerCase()\<close> on the ASCII letters; strings are byte strings here.\<close>

definition lower_char :: "char \<Rightarrow> char" where
  "lower_char c =
     (let n = (of_char c :: nat) in if 65 \<le> n \<and> n \<le> 90 then char_of (n + 32) else c)"

definition toLowerCase :: "string \<Rightarrow> string" where
  "toLowerCase s = map lower_char s"

text \<open>
  \<open>x && x.k1 && x.k1.k2 ...\<close>: the value of the guarded chain, which stops at the
  first falsy link.
\<close>

fun guarded :: "'n host \<Rightarrow> 'n jsval \<Rightarrow> string list \<Rightarrow> 'n jsval" where
  "guarded B v [] = v"
| "guarded B v (k # ks) = (if js_truthy B v then guarded B (js_prop v k) ks else v)"

section \<open>The page: data layer, session storage, console, timers\<close>

text \<open>
  Everything a call can change. \<open>adobeDataLayer\<close> is the Append Log;
  \<open>storage_items\<close> is \<open>sessionStorage\<close>, whose reads and writes throw when the
  matching flag is set (disabled storage, exceeded quota); the console fields keep the
  message text of each \<open>console.log\<close> and \<open>console.error\<close> (the first argument,
  without its decorative glyphs); \<open>timers\<close> holds the pending \<open>setTimeout\<close>
  callbacks, each of which assigns its URL to \<open>window.location.href\<close> once its delay
  in milliseconds has passed; \<open>navigations\<close> lists the assignments to
  \<open>window.location.href\<close> already made; \<open>prevented\<close> counts the calls of
  \<open>preventDefault\<close>.
\<close>

record 'n page =
  adobeDataLayer :: "'n jsval list"
  storage_items :: "string \<Rightarrow> string option"
  storage_read_fails :: bool
  storage_write_fails :: bool
  console_log :: "string list"
  console_error :: "string list"
  timers :: "(nat \<times> 'n jsval) list"
  navigations :: "'n jsval list"
  prevented :: nat

definition getItem :: "'n page \<Rightarrow> string \<Rightarrow> exn + string option" where
  "getItem st k = (if storage_read_fails st then Inl StorageError else Inr (storage_items st k))"

definition setItem :: "string \<Rightarrow> string \<Rightarrow> 'n page \<Rightarrow> exn + 'n page" where
  "setItem k v st =
     (if storage_write_fails st then Inl StorageError
      else Inr (st\<lparr>storage_items := (storage_items st)(k \<mapsto> v)\<rparr>))"

definition push :: "'n jsval \<Rightarrow> 'n page \<Rightarrow> 'n page" where
  "push ev st = st\<lparr>adobeDataLayer := adobeDataLayer st @ [ev]\<rparr>"

definition log_message :: "string \<Rightarrow> 'n page \<Rightarrow> 'n page" where
  "log_message m st = st\<lparr>console_log := console_log st @ [m]\<rparr>"

definition log_error :: "string \<Rightarrow> 'n page \<Rightarrow> 'n page" where
  "log_error m st = st\<lparr>console_error := console_error st @ [m]\<rparr>"

text \<open>
  What the browser does once a call has returned and the delays have passed: every
  pending callback runs and assigns its URL to \<open>window.location.href\<close>.
\<close>

definition run_pending_timers :: "'n page \<Rightarrow> 'n page" where
  "run_pending_timers st = st\<lparr>navigations := navigations st @ map snd (timers st), timers := []\<rparr>"

definition setTimeout_navigate :: "'n jsval \<Rightarrow> nat \<Rightarrow> 'n page \<Rightarrow> 'n page" where
  "setTimeout_navigate url delay st = st\<lparr>timers := timers st @ [(delay, url)]\<rparr>"

section \<open>ADL utilities (window.adl)\<close>

text \<open>
  \<open>buildCustData\<close>, \<open>getPageType\<close> and \<open>getPageName\<close> wrap their bodies in a
  \<open>try\<close> whose statements cannot throw on the values of a host, so their \<open>catch\<close>
  branches do not appear. Every event builder catches what its body throws and reports
  it with \<open>console.error\<close>.
\<close>

definition buildCustData :: "'n host \<Rightarrow> 'n jsval" where
  "buildCustData B =
     (let user = window_user B;
          platform = (if is_mobile B then ''mobile website'' else ''desktop website'');
          loginStatus =
            (if js_truthy B (js_and B user (js_prop user ''isLoggedIn''))
             then ''logged-in'' else ''guest'');
          customerID =
            (if js_truthy B (js_and B user (js_prop user ''id''))
             then js_toString B (js_prop user ''id'') else [])
      in JObj [(''customerID'', JStr customerID), (''lang'', JStr ''english''),
               (''loginStatus'', JStr loginStatus), (''platform'', JStr platform)])"

definition query_truthy :: "'n host \<Rightarrow> string \<Rightarrow> bool" where
  "query_truthy B k = (case loc_query B k of Some v \<Rightarrow> v \<noteq> [] | None \<Rightarrow> False)"

definition getPageType :: "'n host \<Rightarrow> string" where
  "getPageType B =
     (let path = (if loc_pathname B \<noteq> [] then loc_pathname B else loc_href B) in
      if str_includes path ''pdp.html'' \<or> query_truthy B ''id'' then ''pdp''
      else if str_includes path ''plp.html'' then ''category''
      else if str_includes path ''cart.html'' then ''cart''
      else if str_includes path ''checkout.html'' then ''checkout''
      else if str_includes path ''payment.html'' then ''checkout''
      else if str_includes path ''thankyou.html'' then ''confirmation''
      else if str_includes path ''index.html'' \<or> path = ''/'' \<or> suffix ''/'' path then ''home''
      else ''home'')"

definition getPageName :: "'n host \<Rightarrow> string" where
  "getPageName B =
     (case map_of
        [(''home'', ''home''), (''category'', ''plp''), (''pdp'', ''product''),
         (''cart'', ''cart''), (''checkout'', ''checkout''),
         (''confirmation'', ''confirmation'')] (getPageType B) of
        Some n \<Rightarrow> n
      | None \<Rightarrow> ''home'')"

text \<open>
  The statements of \<open>firePageLoaded\<close> before the push: the event object, or the
  TypeError of \<open>(product.productID || '').toLowerCase()\<close> when the identifier is truthy
  and not a string. On a product-detail page with product details the page name is
  overwritten, and \<open>productCategory\<close> and \<open>productDetails\<close> are added.
\<close>

definition pageLoaded_object ::
  "'n jsval \<Rightarrow> (string \<times> 'n jsval) list \<Rightarrow> (string \<times> 'n jsval) list \<Rightarrow> 'n jsval" where
  "pageLoaded_object custData webPageDetails extra =
     JObj [(''event'', JStr ''pageLoaded''),
           (''xdmPageLoad'', JObj
              [(''custData'', custData),
               (''web'', JObj ((''webPageDetails'', JObj webPageDetails) # extra))])]"

definition pageLoaded_event :: "'n host \<Rightarrow> 'n jsval \<Rightarrow> exn + 'n jsval" where
  "pageLoaded_event B options =
     (let opts = js_or B options (JObj []);
          pageType = js_or B (js_prop opts ''pageType'') (JStr (getPageType B));
          pageName = js_or B (js_prop opts ''pageName'') (JStr (getPageName B));
          custData = buildCustData B;
          product = js_prop opts ''productDetails''
      in if pageType = JStr ''pdp'' \<and> js_truthy B product then
           (case js_or B (js_prop product ''productID'') (JStr []) of
              JStr pid \<Rightarrow>
                Inr (pageLoaded_object custData
                  [(''brand'', JStr ''velora''),
                   (''channel'', JStr (''web|'' @ js_toString B pageType)),
                   (''pageName'', JStr (''product:'' @ toLowerCase pid)),
                   (''pageType'', pageType),
                   (''pageUrl'', JStr (loc_href B)),
                   (''productCategory'', js_or B (js_prop product ''category'') (JStr []))]
                  [(''productDetails'', JArr [JObj
                     [(''productID'', js_or B (js_prop product ''productID'') (JStr [])),
                      (''sku'', js_or B (js_prop product ''sku'') (JStr [])),
                      (''productName'', js_or B (js_prop product ''productName'') (JStr [])),
                      (''brand'', js_or B (js_prop product ''brand'') (JStr ''velora'')),
                      (''category'', js_or B (js_prop product ''category'') (JStr [])),
                      (''price'', js_or B (js_prop product ''price'') (JNum (num_zero B))),
                      (''color'', js_or B (js_prop product ''color'') (JStr [])),
                      (''size'', js_or B (js_prop product ''size'') (JStr [])),
                      (''quantity'', js_or B (js_prop product ''quantity'') (JNum (num_one B))),
                      (''currency'', JStr ''USD'')]])])
            | _ \<Rightarrow> Inl TypeError)
         else
           Inr (pageLoaded_object custData
             [(''brand'', JStr ''velora''),
              (''channel'', JStr (''web|'' @ js_toString B pageType)),
              (''pageName'', pageName),
              (''pageType'', pageType),
              (''pageUrl'', JStr (loc_href B))] []))"

definition firePageLoaded :: "'n host \<Rightarrow> 'n jsval \<Rightarrow> 'n page \<Rightarrow> 'n page" where
  "firePageLoaded B options st =
     (case pageLoaded_event B options of
        Inr eventObject \<Rightarrow> log_message ''ADL: pageLoaded event fired:'' (push eventObject st)
      | Inl e \<Rightarrow> log_error ''ADL: Error firing pageLoaded event'' st)"

text \<open>
  \<open>trackLinkClick\<close> reads its arguments in one of three ways: a browser event with
  an options object, an options object alone, or four positional values.
  \<open>link_args\<close> is what the chosen branch assigns: link name, type, position, page
  name, URL and the navigation flag. The branch of the browser event also calls
  \<open>event.preventDefault()\<close> when a URL is given.
\<close>

record 'n link_args =
  a_linkName :: "'n jsval"
  a_linkType :: "'n jsval"
  a_linkPosition :: "'n jsval"
  a_pageName :: "'n jsval"
  a_linkURL :: "'n jsval"
  a_shouldNavigate :: bool

definition options_args :: "'n host \<Rightarrow> 'n jsval \<Rightarrow> 'n link_args" where
  "options_args B opts =
     \<lparr>a_linkName = js_or B (js_prop opts ''linkName'') (JStr []),
      a_linkType = js_or B (js_prop opts ''linkType'') (JStr ''nav''),
      a_linkPosition = js_or B (js_prop opts ''linkPosition'') (JStr []),
      a_pageName = js_or B (js_prop opts ''linkPageName'') (JStr (getPageName B)),
      a_linkURL = js_or B (js_prop opts ''linkURL'') (JStr []),
      a_shouldNavigate = (js_prop opts ''shouldNavigate'' \<noteq> JBool False)\<rparr>"

definition positional_args ::
  "'n host \<Rightarrow> 'n jsval \<Rightarrow> 'n jsval \<Rightarrow> 'n jsval \<Rightarrow> 'n jsval \<Rightarrow> 'n link_args" where
  "positional_args B a1 a2 a3 a4 =
     \<lparr>a_linkName = a1,
      a_linkType = js_or B a2 (JStr ''nav''),
      a_linkPosition = js_or B a3 (JStr []),
      a_pageName = js_or B a4 (JStr (getPageName B)),
      a_linkURL = JStr [],
      a_shouldNavigate = False\<rparr>"

text \<open>Calling \<open>event.preventDefault()\<close>: a TypeError unless the property is a function.\<close>

definition call_preventDefault :: "'n jsval \<Rightarrow> 'n page \<Rightarrow> exn + 'n page" where
  "call_preventDefault event st =
     (case js_prop event ''preventDefault'' of
        JFun f \<Rightarrow> Inr (st\<lparr>prevented := Suc (prevented st)\<rparr>)
      | _ \<Rightarrow> Inl TypeError)"

definition read_link_args ::
  "'n host \<Rightarrow> 'n jsval \<Rightarrow> 'n jsval \<Rightarrow> 'n jsval \<Rightarrow> 'n jsval \<Rightarrow> 'n page
     \<Rightarrow> exn + ('n link_args \<times> 'n page)" where
  "read_link_args B a1 a2 a3 a4 st =
     (if js_truthy B a1 \<and> is_object a1 \<and> js_truthy B (js_prop a1 ''preventDefault'') then
        (let args = options_args B (js_or B a2 (JObj [])) in
         if js_truthy B (a_linkURL args) then
           (case call_preventDefault a1 st of
              Inl e \<Rightarrow> Inl e
            | Inr st' \<Rightarrow> Inr (args, st'))
         else Inr (args, st))
      else if js_truthy B a1 \<and> is_object a1 \<and> \<not> js_truthy B (js_prop a1 ''preventDefault'') then
        Inr (options_args B a1, st)
      else Inr (positional_args B a1 a2 a3 a4, st))"

definition linkClicked_event :: "'n host \<Rightarrow> 'n link_args \<Rightarrow> 'n jsval" where
  "linkClicked_event B args =
     JObj [(''event'', JStr ''linkClicked''),
           (''custData'', buildCustData B),
           (''xdmActionDetails'', JObj
              [(''web'', JObj
                 [(''webInteraction'', JObj
                    [(''brand'', JStr ''velora''),
                     (''channel'', JStr (''web|'' @ js_toString B (a_pageName args))),
                     (''linkName'', a_linkName args),
                     (''linkType'', a_linkType args),
                     (''linkPosition'', a_linkPosition args),
                     (''linkPageName'', a_pageName args)])])])]"

definition trackLinkClick ::
  "'n host \<Rightarrow> 'n jsval \<Rightarrow> 'n jsval \<Rightarrow> 'n jsval \<Rightarrow> 'n jsval \<Rightarrow> 'n page \<Rightarrow> 'n page" where
  "trackLinkClick B a1 a2 a3 a4 st =
     (case read_link_args B a1 a2 a3 a4 st of
        Inl e \<Rightarrow> log_error ''ADL: Error tracking link click'' st
      | Inr (args, st1) \<Rightarrow>
          if \<not> js_truthy B (a_linkName args) then
            log_error ''ADL: trackLinkClick requires linkName'' st1
          else
            (let eventObject = linkClicked_event B args;
                 st2 = (if js_truthy B (a_linkURL args) \<and> a_shouldNavigate args
                        then setTimeout_navigate (a_linkURL args) 300 st1 else st1)
             in log_message ''ADL: linkClicked event fired:'' (push eventObject st2)))"

definition addToCart_event :: "'n host \<Rightarrow> 'n jsval \<Rightarrow> 'n jsval" where
  "addToCart_event B product =
     JObj [(''event'', JStr ''addToCart''),
           (''custData'', buildCustData B),
           (''xdmCommerce'', JObj
              [(''product'', JObj
                 ([(''sku'', js_or B (js_prop product ''sku'') (JStr [])),
                   (''productID'', js_prop product ''productID''),
                   (''productName'', js_prop product ''productName''),
                   (''brand'', js_or B (js_prop product ''brand'') (JStr ''velora'')),
                   (''category'', js_prop product ''category''),
                   (''color'', js_or B (js_prop product ''color'') (JStr [])),
                   (''size'', js_or B (js_prop product ''size'') (JStr [])),
                   (''price'', js_prop product ''price''),
                   (''quantity'', js_or B (js_prop product ''quantity'') (JNum (num_one B))),
                   (''currencyCode'', JStr ''USD'')]
                  @ (if js_truthy B (js_or B (js_prop product ''linkPosition'')
                                        (js_prop product ''linkType''))
                     then [(''linkPosition'', js_or B (js_prop product ''linkPosition'') (JStr [])),
                           (''linkType'', js_or B (js_prop product ''linkType'') (JStr []))]
                     else [])))])]"

definition trackAddToCart :: "'n host \<Rightarrow> 'n jsval \<Rightarrow> 'n page \<Rightarrow> 'n page" where
  "trackAddToCart B product st =
     (if \<not> js_truthy B product \<or> \<not> js_truthy B (js_prop product ''productID'') then
        log_error ''ADL: trackAddToCart requires product with productID'' st
      else log_message ''ADL: addToCart event fired:'' (push (addToCart_event B product) st))"

definition removeFromCart_event :: "'n host \<Rightarrow> 'n jsval \<Rightarrow> 'n jsval" where
  "removeFromCart_event B product =
     JObj [(''event'', JStr ''removeFromCart''),
           (''custData'', buildCustData B),
           (''xdmCommerce'', JObj
              [(''product'', JObj
                 [(''sku'', js_or B (js_prop product ''sku'') (JStr [])),
                  (''productID'', js_prop product ''productID''),
                  (''productName'', js_prop product ''productName''),
                  (''brand'', js_or B (js_prop product ''brand'') (JStr ''velora'')),
                  (''category'', js_or B (js_prop product ''category'') (JStr [])),
                  (''price'', js_or B (js_prop product ''price'') (JNum (num_zero B))),
                  (''color'', js_or B (js_prop product ''color'') (JStr [])),
                  (''size'', js_or B (js_prop product ''size'') (JStr [])),
                  (''quantity'', js_or B (js_prop product ''quantity'') (JNum (num_one B))),
                  (''currencyCode'', JStr ''USD'')])])]"

definition trackRemoveFromCart :: "'n host \<Rightarrow> 'n jsval \<Rightarrow> 'n page \<Rightarrow> 'n page" where
  "trackRemoveFromCart B product st =
     (if \<not> js_truthy B product \<or> \<not> js_truthy B (js_prop product ''productID'') then
        log_error ''ADL: trackRemoveFromCart requires product with productID'' st
      else log_message ''ADL: removeFromCart event fired:'' (push (removeFromCart_event B product) st))"

text \<open>
  The host once these utilities are loaded: \<open>window.adl.getPageType\<close> and
  \<open>window.adl.buildCustData\<close> are the two functions above, which catch their own
  errors and so always return a value.
\<close>

definition adl_utils_loaded :: "'n host \<Rightarrow> 'n host" where
  "adl_utils_loaded B =
     B\<lparr>adl_getPageType := Some (Inr (JStr (getPageType B))),
       adl_buildCustData := Some (Inr (buildCustData B))\<rparr>"

section \<open>The XDM helper's push (adl-xdm-helper.js)\<close>

text \<open>
  \<open>obj.k = v\<close>: on an object the property is overwritten in place or added last; an
  assignment to a property of a primitive is ignored.
\<close>

fun set_field :: "string \<Rightarrow> 'n jsval \<Rightarrow> (string \<times> 'n jsval) list \<Rightarrow> (string \<times> 'n jsval) list" where
  "set_field k v [] = [(k, v)]"
| "set_field k v (p # ps) = (if fst p = k then (k, v) # ps else p # set_field k v ps)"

fun assign :: "string \<Rightarrow> 'n jsval \<Rightarrow> 'n jsval \<Rightarrow> 'n jsval" where
  "assign k v (JObj kvs) = JObj (set_field k v kvs)"
| "assign k v x = x"

text \<open>
  The two statements guarded by \<open>obj.event === ...\<close> inside the \<open>try\<close> of
  \<open>localPushToDataLayer\<close>. The object is the one just pushed, so giving it a
  timestamp changes the last entry of the log; a failure of \<open>JSON.stringify\<close> or of
  \<open>setItem\<close> is caught and leaves the storage as it was.
\<close>

definition with_timestamp :: "'n host \<Rightarrow> 'n jsval \<Rightarrow> 'n jsval" where
  "with_timestamp B obj =
     (if js_truthy B (js_prop obj ''timestamp'') then obj
      else assign ''timestamp'' (JNum (date_now B)) obj)"

definition persist_snapshot :: "'n host \<Rightarrow> string \<Rightarrow> 'n jsval \<Rightarrow> 'n page \<Rightarrow> 'n page" where
  "persist_snapshot B key obj st =
     (let obj' = with_timestamp B obj;
          st' = st\<lparr>adobeDataLayer :=
                     (adobeDataLayer st)[length (adobeDataLayer st) - 1 := obj']\<rparr>
      in case JSON_stringify B obj' of
           Inl e \<Rightarrow> st'
         | Inr s \<Rightarrow> (case setItem key s st' of Inl e \<Rightarrow> st' | Inr st'' \<Rightarrow> st''))"

definition localPushToDataLayer :: "'n host \<Rightarrow> 'n jsval \<Rightarrow> 'n page \<Rightarrow> 'n page" where
  "localPushToDataLayer B obj st =
     (let st1 = push obj st;
          st2 = (case get_prop obj ''event'' of
                   Inl e \<Rightarrow> st1
                 | Inr ev \<Rightarrow>
                     log_message (''ACDL: '' @ js_toString B (js_or B ev (JStr ''unknown''))
                                    @ '' tracked:'') st1);
          st3 = log_message ''ACDL Length:'' st2
      in case get_prop obj ''event'' of
           Inl e \<Rightarrow> st3
         | Inr ev \<Rightarrow>
             if ev = JStr ''linkClicked'' then persist_snapshot B ''aurora_lastLinkClicked'' obj st3
             else if ev = JStr ''pageLoaded'' then persist_snapshot B ''aurora_pageData'' obj st3
             else st3)"

section \<open>The normalizer (ADL XDM Normalizer)\<close>

text \<open>
  \<open>normalizeProduct(source)\<close>: \<open>null\<close> unless the source is a non-null object, else the
  eight-field descriptor.
\<close>

definition normalizeProduct :: "'n host \<Rightarrow> 'n jsval \<Rightarrow> 'n jsval" where
  "normalizeProduct B source =
     (if \<not> js_truthy B source \<or> \<not> is_object source then JNull
      else
        let id = js_or B (js_prop source ''productID'') (js_or B (js_prop source ''id'')
                   (js_or B (js_prop source ''sku'') (js_or B (js_prop source ''SKU'') (JStr ''''))));
            name = js_or B (js_prop source ''productName'') (js_or B (js_prop source ''name'')
                   (js_or B (js_prop source ''product_name'') (JStr '''')));
            category = js_or B (js_prop source ''category'')
                   (js_or B (js_prop source ''productCategory'') (JStr ''''));
            price = js_or B (JNum (js_Number B (js_or B (js_prop source ''price'')
                   (js_or B (js_prop source ''priceTotal'') (js_or B (js_prop source ''unitPrice'')
                   (JNum (num_zero B))))))) (JNum (num_zero B));
            quantity = js_or B (JNum (js_Number B (js_or B (js_prop source ''quantity'')
                   (js_or B (js_prop source ''qty'') (JNum (num_one B)))))) (JNum (num_one B));
            brand = js_or B (js_prop source ''brand'') (JStr '''');
            image = js_or B (js_prop source ''image'') (js_or B (js_prop source ''imageUrl'') (JStr ''''))
        in JObj
          [(''SKU'', if js_truthy B id then JStr (js_toString B id) else JStr ''''),
           (''productID'', if js_truthy B id then JStr (js_toString B id) else JStr ''''),
           (''productName'', js_or B name (JStr '''')),
           (''productCategory'', js_or B category (JStr '''')),
           (''price'', price),
           (''quantity'', quantity),
           (''brand'', js_or B brand (JStr '''')),
           (''image'', js_or B image (JStr ''''))])"

text \<open>
  \<open>JSON.parse(null)\<close> is \<open>null\<close>, which is what \<open>getItem\<close> returns for a key that
  is not stored.
\<close>

definition safeJSONParse :: "'n host \<Rightarrow> string option \<Rightarrow> 'n jsval" where
  "safeJSONParse B v =
     (case v of
        None \<Rightarrow> JNull
      | Some s \<Rightarrow> (case JSON_parse B s of Inl e \<Rightarrow> JNull | Inr j \<Rightarrow> j))"

definition safeJSONStringify :: "'n host \<Rightarrow> 'n jsval \<Rightarrow> string option" where
  "safeJSONStringify B v = (case JSON_stringify B v of Inl e \<Rightarrow> None | Inr s \<Rightarrow> Some s)"

definition getQueryParam :: "'n host \<Rightarrow> string \<Rightarrow> 'n jsval" where
  "getQueryParam B name = (case loc_query B name of None \<Rightarrow> JNull | Some v \<Rightarrow> JStr v)"

text \<open>The loop of \<open>findLatestDLEvent\<close>, over the log from its last entry.\<close>

fun findLatest :: "'n host \<Rightarrow> string \<Rightarrow> 'n jsval list \<Rightarrow> 'n jsval" where
  "findLatest B eventName [] = JNull"
| "findLatest B eventName (ev # older) =
     (if \<not> js_truthy B ev then findLatest B eventName older
      else if js_prop ev ''event'' = JStr eventName then ev
      else if eventName = ''pageLoaded'' \<and> js_truthy B (js_prop ev ''xdmPageLoad'') then ev
      else findLatest B eventName older)"

definition findLatestDLEvent :: "'n host \<Rightarrow> 'n page \<Rightarrow> string \<Rightarrow> 'n jsval" where
  "findLatestDLEvent B st eventName = findLatest B eventName (rev (adobeDataLayer st))"

text \<open>A product list is \<open>null\<close> (\<open>None\<close>) or an array.\<close>

definition as_array :: "'n jsval \<Rightarrow> 'n jsval list option" where
  "as_array v = (case v of JArr xs \<Rightarrow> Some xs | _ \<Rightarrow> None)"

definition normalize_all :: "'n host \<Rightarrow> 'n jsval list \<Rightarrow> 'n jsval list" where
  "normalize_all B xs = filter (js_truthy B) (map (normalizeProduct B) xs)"

definition or_list :: "'a option \<Rightarrow> 'a option \<Rightarrow> 'a option" where
  "or_list l r = (case l of None \<Rightarrow> r | Some xs \<Rightarrow> Some xs)"

text \<open>
  \<open>window.products.find(p => String(p.id) === String(id))\<close>: reading \<open>p.id\<close> throws on
  an entry that is \<open>null\<close> or \<open>undefined\<close>.
\<close>

fun find_product :: "'n host \<Rightarrow> string \<Rightarrow> 'n jsval list \<Rightarrow> exn + 'n jsval" where
  "find_product B idstr [] = Inr JUndefined"
| "find_product B idstr (p # ps) =
     (case get_prop p ''id'' of
        Inl e \<Rightarrow> Inl e
      | Inr v \<Rightarrow> if js_toString B v = idstr then Inr p else find_product B idstr ps)"

definition product_from_catalog :: "'n host \<Rightarrow> 'n jsval \<Rightarrow> 'n jsval" where
  "product_from_catalog B found =
     normalizeProduct B (JObj
       [(''productID'', JStr (''VEL-'' @ js_toString B (js_or B (js_prop found ''id'') (JStr [])))),
        (''sku'', js_or B (js_prop found ''sku'') (JStr (js_toString B (js_prop found ''id'')))),
        (''productName'', js_prop found ''name''),
        (''productCategory'', js_prop found ''category''),
        (''price'', js_or B (js_prop found ''price'') (JNum (num_zero B))),
        (''quantity'', JNum (num_one B)),
        (''brand'', js_or B (js_prop found ''brand'') (JStr []))])"

definition buildProductListItemsFromPDP :: "'n host \<Rightarrow> 'n page \<Rightarrow> 'n jsval list option" where
  "buildProductListItemsFromPDP B st =
     (let pdpEvent = js_or B (findLatestDLEvent B st ''productDetail'')
                             (findLatestDLEvent B st ''pageLoaded'');
          list =
            (if js_truthy B pdpEvent then
               or_list (or_list (or_list
                 (as_array (js_prop (js_prop pdpEvent ''xdm'') ''productListItems''))
                 (as_array (js_prop (js_prop (js_prop pdpEvent ''xdmPageLoad'') ''web'')
                              ''productDetails'')))
                 (as_array (js_prop pdpEvent ''product'')))
                 (as_array (js_prop pdpEvent ''productDetails''))
             else None);
          id = getQueryParam B ''id''
      in case list of
           Some (x # xs) \<Rightarrow> Some (normalize_all B (x # xs))
         | _ \<Rightarrow>
           (if js_truthy B id \<and> js_truthy B (window_products B) then
              (case window_products B of
                 JArr ps \<Rightarrow>
                   (case find_product B (js_toString B id) ps of
                      Inl e \<Rightarrow> None
                    | Inr found \<Rightarrow>
                        if js_truthy B found then Some [product_from_catalog B found] else None)
               | _ \<Rightarrow> None)
            else None))"

text \<open>The descriptor built from one entry of the stored cart; \<open>c.id\<close> throws on \<open>null\<close>.\<close>

definition product_from_cart :: "'n host \<Rightarrow> 'n jsval \<Rightarrow> exn + 'n jsval" where
  "product_from_cart B c =
     (case get_prop c ''id'' of
        Inl e \<Rightarrow> Inl e
      | Inr cid \<Rightarrow> Inr (normalizeProduct B (JObj
          [(''productID'', if js_truthy B cid then JStr (''VEL-'' @ js_toString B cid)
                           else js_or B (js_prop c ''productID'') (JStr [])),
           (''sku'', js_or B (js_prop c ''sku'') cid),
           (''productName'', js_or B (js_prop c ''name'') (js_or B (js_prop c ''productName'') (JStr []))),
           (''productCategory'', js_or B (js_prop c ''category'')
                                   (js_or B (js_prop c ''productCategory'') (JStr []))),
           (''price'', js_or B (js_prop c ''price'') (JNum (num_zero B))),
           (''quantity'', js_or B (js_prop c ''quantity'')
                            (js_or B (js_prop c ''qty'') (JNum (num_one B)))),
           (''brand'', js_or B (js_prop c ''brand'') (JStr []))])))"

fun map_throwing :: "('a \<Rightarrow> exn + 'b) \<Rightarrow> 'a list \<Rightarrow> exn + 'b list" where
  "map_throwing f [] = Inr []"
| "map_throwing f (x # xs) =
     (case f x of
        Inl e \<Rightarrow> Inl e
      | Inr y \<Rightarrow> (case map_throwing f xs of Inl e \<Rightarrow> Inl e | Inr ys \<Rightarrow> Inr (y # ys)))"

definition stored_products :: "'n host \<Rightarrow> 'n page \<Rightarrow> 'n jsval list option" where
  "stored_products B st =
     (case getItem st ''velora_productListItems'' of
        Inl e \<Rightarrow> None
      | Inr v \<Rightarrow>
          (case safeJSONParse B v of
             JArr (x # xs) \<Rightarrow> Some (normalize_all B (x # xs))
           | _ \<Rightarrow> None))"

definition cart_products :: "'n host \<Rightarrow> 'n page \<Rightarrow> 'n jsval list option" where
  "cart_products B st =
     (case getItem st ''velora_cart'' of
        Inl e \<Rightarrow> None
      | Inr v \<Rightarrow>
          (case js_or B (safeJSONParse B v) (JArr []) of
             JArr (c # cs) \<Rightarrow>
               (case map_throwing (product_from_cart B) (c # cs) of
                  Inl e \<Rightarrow> None
                | Inr ds \<Rightarrow> Some (filter (js_truthy B) ds))
           | _ \<Rightarrow> None))"

definition buildProductListItemsFromCartOrStorage ::
  "'n host \<Rightarrow> 'n page \<Rightarrow> 'n jsval list option" where
  "buildProductListItemsFromCartOrStorage B st = or_list (stored_products B st) (cart_products B st)"

definition persistProductListItems :: "'n host \<Rightarrow> 'n jsval list \<Rightarrow> 'n page \<Rightarrow> 'n page" where
  "persistProductListItems B list st =
     (let safe = normalize_all B list;
          json = (case safeJSONStringify B (JArr safe) of None \<Rightarrow> ''null'' | Some s \<Rightarrow> s)
      in case setItem ''velora_productListItems'' json st of Inl e \<Rightarrow> st | Inr st' \<Rightarrow> st')"

text \<open>The last segment of a path: \<open>path.split('/').pop()\<close>.\<close>

definition last_segment :: "string \<Rightarrow> string" where
  "last_segment path = rev (takeWhile (\<lambda>c. c \<noteq> CHR ''/'') (rev path))"

text \<open>
  \<open>buildPageDetails\<close>. The only statement of the normalizer that is outside every
  \<open>try\<close> and can throw is the call of \<open>window.adl.getPageType()\<close> in the last resort:
  \<open>adl_getPageType\<close> is \<open>None\<close> when \<open>window.adl.getPageType\<close> is not a function, and
  otherwise the outcome of calling it.
\<close>

definition buildPageDetails :: "'n host \<Rightarrow> 'n page \<Rightarrow> exn + 'n jsval" where
  "buildPageDetails B st =
     (let storedPage = (case getItem st ''velora_pageData'' of
                          Inl e \<Rightarrow> JUndefined
                        | Inr v \<Rightarrow> safeJSONParse B v);
          pageEv = findLatestDLEvent B st ''pageLoaded''
      in if js_truthy B (guarded B storedPage [''xdmPageLoad'', ''web'', ''webPageDetails''])
         then Inr (guarded B storedPage [''xdmPageLoad'', ''web'', ''webPageDetails''])
         else if js_truthy B (guarded B pageEv [''xdm'', ''web'', ''webPageDetails''])
         then Inr (guarded B pageEv [''xdm'', ''web'', ''webPageDetails''])
         else if js_truthy B (guarded B pageEv [''xdmPageLoad'', ''web'', ''webPageDetails''])
         then Inr (guarded B pageEv [''xdmPageLoad'', ''web'', ''webPageDetails''])
         else
           (case (case adl_getPageType B of
                    Some r \<Rightarrow> r
                  | None \<Rightarrow> Inr (js_or B (JStr (last_segment (loc_pathname B))) (JStr ''home''))) of
              Inl e \<Rightarrow> Inl e
            | Inr pageType \<Rightarrow>
                Inr (JObj
                  [(''pageName'', JStr (if doc_title B \<noteq> [] then doc_title B @ '' | velora''
                                        else js_toString B pageType @ '' | velora'')),
                   (''pageType'', pageType),
                   (''pageUrl'', JStr (loc_href B)),
                   (''brand'', JStr ''velora''),
                   (''channel'', JStr (''web|'' @ js_toString B (js_or B pageType (JStr ''web''))))])))"

text \<open>
  The purchase test of \<open>buildOrderDetailsIfPresent\<close> on one entry:
  \<open>ev.event.toLowerCase()\<close> throws when \<open>ev.event\<close> is truthy and not a string.
\<close>

definition is_purchase :: "'n host \<Rightarrow> 'n jsval \<Rightarrow> exn + bool" where
  "is_purchase B ev =
     (let name = js_prop ev ''event'' in
      if \<not> js_truthy B name then Inr False
      else (case name of
              JStr s \<Rightarrow> Inr (str_includes (toLowerCase s) ''purchase''
                             \<or> str_includes (toLowerCase s) ''scpurchase'' \<or> s = ''orderCompleted'')
            | _ \<Rightarrow> Inl TypeError))"

fun find_order :: "'n host \<Rightarrow> 'n jsval list \<Rightarrow> exn + 'n jsval option" where
  "find_order B [] = Inr None"
| "find_order B (ev # older) =
     (if \<not> js_truthy B ev then find_order B older
      else (case is_purchase B ev of
              Inl e \<Rightarrow> Inl e
            | Inr True \<Rightarrow>
                Inr (Some (js_or B (js_prop ev ''order'')
                            (js_or B (guarded B (js_prop ev ''xdm'') [''commerce'', ''order''])
                              (js_or B (js_prop ev ''orderDetails'') JNull))))
            | Inr False \<Rightarrow>
                if js_truthy B (guarded B (js_prop ev ''xdmPageLoad'') [''web'', ''order''])
                then Inr (Some (guarded B (js_prop ev ''xdmPageLoad'') [''web'', ''order'']))
                else find_order B older))"

definition buildOrderDetailsIfPresent :: "'n host \<Rightarrow> 'n page \<Rightarrow> 'n jsval" where
  "buildOrderDetailsIfPresent B st =
     (case (case adl_getPageType B of
              Some r \<Rightarrow> r
            | None \<Rightarrow> (case js_or B (getQueryParam B ''page'') (JStr []) of
                          JStr s \<Rightarrow> Inr (JStr (toLowerCase s))
                        | _ \<Rightarrow> Inl TypeError)) of
        Inl e \<Rightarrow> JNull
      | Inr pageType \<Rightarrow>
          if \<not> (pageType = JStr ''confirmation'' \<or> str_includes (loc_pathname B) ''thankyou''
                 \<or> str_includes (loc_pathname B) ''confirmation'' \<or> str_includes (loc_href B) ''thankyou'')
          then JNull
          else (case find_order B (rev (adobeDataLayer st)) of
                  Inl e \<Rightarrow> JNull
                | Inr (Some order) \<Rightarrow> order
                | Inr None \<Rightarrow>
                    (case getItem st ''velora_order'' of
                       Inl e \<Rightarrow> JNull
                     | Inr v \<Rightarrow> if js_truthy B (safeJSONParse B v) then safeJSONParse B v
                                else JNull)))"

definition unified ::
  "'n jsval \<Rightarrow> 'n jsval list \<Rightarrow> (string \<times> 'n jsval) list \<Rightarrow> 'n jsval \<Rightarrow> 'n jsval" where
  "unified webPageDetails productListItems order custData =
     JObj [(''xdm'', JObj
              [(''web'', JObj [(''webPageDetails'', webPageDetails)]),
               (''commerce'', JObj ((''productListItems'', JArr productListItems) # order))]),
           (''custData'', custData)]"

definition buildUnifiedXDM :: "'n host \<Rightarrow> 'n page \<Rightarrow> exn + ('n jsval \<times> 'n page)" where
  "buildUnifiedXDM B st =
     (case buildPageDetails B st of
        Inl e \<Rightarrow> Inl e
      | Inr details \<Rightarrow>
          (let isPDPLike = (str_includes (loc_pathname B) ''pdp'' \<or> js_truthy B (getQueryParam B ''id''));
               products = (if isPDPLike then buildProductListItemsFromPDP B st else None);
               st' = (case products of
                        Some (x # xs) \<Rightarrow> persistProductListItems B (x # xs) st
                      | _ \<Rightarrow> st);
               products' = (case products of
                        Some (x # xs) \<Rightarrow> x # xs
                      | _ \<Rightarrow> (case buildProductListItemsFromCartOrStorage B st' of
                                None \<Rightarrow> []
                              | Some ys \<Rightarrow> ys));
               order = buildOrderDetailsIfPresent B st';
               custData = (case adl_buildCustData B of
                             Some (Inr c) \<Rightarrow> c
                           | _ \<Rightarrow> JNull)
           in Inr (unified (js_or B details (JObj [])) (normalize_all B products')
                     (if js_truthy B order then [(''order'', order)] else []) custData, st')))"

text \<open>The public \<open>getUnifiedXDM\<close>: the \<open>catch\<close> returns the default object.\<close>

definition default_unified :: "'n jsval" where
  "default_unified = unified (JObj []) [] [] JNull"

definition getUnifiedXDM :: "'n host \<Rightarrow> 'n page \<Rightarrow> 'n jsval \<times> 'n page" where
  "getUnifiedXDM B st =
     (case buildUnifiedXDM B st of
        Inr r \<Rightarrow> r
      | Inl e \<Rightarrow> (default_unified, st))"




section \<open>The validation utility (adl-validation.js)\<close>





text \<open>
  \<open>eventCounts[event.event]\<close> after the \<open>forEach\<close> of \<open>validateNoDuplicates\<close>, for a
  key that \<open>Object.prototype\<close> does not define: the entries whose \<open>event\<close> is truthy and,
  as a property key, equal to it.
\<close>

fun eventCounts :: "'n host \<Rightarrow> 'n jsval list \<Rightarrow> string \<Rightarrow> nat" where
  "eventCounts B [] k = 0"
| "eventCounts B (ev # evs) k =
     (if js_truthy B ev \<and> js_truthy B (js_prop ev ''event'')
         \<and> js_toString B (js_prop ev ''event'') = k
      then Suc (eventCounts B evs k) else eventCounts B evs k)"

definition validateNoDuplicates :: "'n host \<Rightarrow> 'n page \<Rightarrow> bool" where
  "validateNoDuplicates B st = (\<not> 1 < eventCounts B (adobeDataLayer st) ''pageLoaded'')"

section \<open>A concrete host and page\<close>

text \<open>
  The closed statements below are evaluated on this host. Its numbers are the integers,
  with \<open>None\<close> for \<open>NaN\<close>; a string converts to a number when it is empty or all
  decimal digits, and to \<open>NaN\<close> otherwise. \<open>JSON.stringify\<close> writes the JSON text
  of a value (\<open>json_text\<close>), and \<open>JSON.parse\<close> reads back the texts of the documents
  that the examples store; any other text does not parse. The page is \<open>plp.html\<close> on
  a desktop with no user logged in; \<open>bare_host\<close> is the host before the ADL utilities
  are loaded and \<open>example_host\<close> the host after.
\<close>

function decimal :: "int \<Rightarrow> string" where
  "decimal n =
     (if n < 10 then [char_of (48 + n)] else decimal (n div 10) @ [char_of (48 + n mod 10)])"
  by pat_completeness auto
termination
  by (relation "measure nat") auto

declare decimal.simps [simp del]

fun digits_value :: "string \<Rightarrow> int \<Rightarrow> int option" where
  "digits_value [] acc = Some acc"
| "digits_value (c # cs) acc =
     (let d = (of_char c :: int) in
      if 48 \<le> d \<and> d \<le> 57 then digits_value cs (10 * acc + (d - 48)) else None)"

definition example_link :: "int option jsval" where
  "example_link =
     JObj [(''event'', JStr ''linkClicked''), (''linkName'', JStr ''Collection''),
           (''timestamp'', JNum (Some 1700000000000))]"

definition example_pageData :: "int option jsval" where
  "example_pageData =
     JObj [(''event'', JStr ''pageLoaded''),
           (''page'', JObj [(''pageName'', JStr ''Home''), (''pageType'', JStr ''home'')]),
           (''timestamp'', JNum (Some 1700000000000))]"

definition example_products :: "int option jsval" where
  "example_products =
     JArr [JObj [(''productID'', JStr ''VEL-1''), (''productName'', JStr ''Classic Denim Jacket''),
                 (''price'', JNum (Some 2499))]]"

definition json_string :: "string \<Rightarrow> string" where
  "json_string s =
     CHR 0x22 # concat (map (\<lambda>c. if c = CHR 0x22 \<or> c = CHR 0x5C then [CHR 0x5C, c] else [c]) s)
       @ [CHR 0x22]"

fun is_serialized :: "'n jsval \<Rightarrow> bool" where
  "is_serialized JUndefined = False"
| "is_serialized (JFun f) = False"
| "is_serialized v = True"

fun json_text :: "int option jsval \<Rightarrow> string" where
  "json_text JUndefined = ''null''"
| "json_text JNull = ''null''"
| "json_text (JBool b) = (if b then ''true'' else ''false'')"
| "json_text (JNum n) =
     (case n of
        None \<Rightarrow> ''null''
      | Some i \<Rightarrow> (if i < 0 then ''-'' @ decimal (- i) else decimal i))"
| "json_text (JStr s) = json_string s"
| "json_text (JFun f) = ''null''"
| "json_text (JArr xs) = ''['' @ join_with '','' (map json_text xs) @ '']''"
| "json_text (JObj kvs) =
     ''{'' @ join_with '',''
        (map (\<lambda>p. json_string (fst p) @ '':'' @ json_text (snd p))
           (filter (\<lambda>p. is_serialized (snd p)) kvs)) @ ''}''"

definition example_documents :: "int option jsval list" where
  "example_documents = [example_link, example_pageData, example_products, JNull]"

definition bare_host :: "int option host" where
  "bare_host =
     \<lparr>num_falsy = (\<lambda>n. n = None \<or> n = Some 0),
      num_of_string = (\<lambda>s. digits_value s 0),
      string_of_num = (\<lambda>n. case n of
                              None \<Rightarrow> ''NaN''
                            | Some i \<Rightarrow> (if i < 0 then ''-'' @ decimal (- i) else decimal i)),
      num_zero = Some 0,
      num_one = Some 1,
      num_nan = None,
      date_now = Some 1700000000000,
      JSON_parse = (\<lambda>s. case find (\<lambda>d. json_text d = s) example_documents of
                            Some d \<Rightarrow> Inr d | None \<Rightarrow> Inl SyntaxError),
      JSON_stringify = (\<lambda>v. Inr (json_text v)),
      loc_pathname = ''/plp.html'',
      loc_href = ''http://localhost:8000/plp.html'',
      loc_query = (\<lambda>k. None),
      doc_title = ''Shop'',
      is_mobile = False,
      window_user = JUndefined,
      window_products = JUndefined,
      adl_getPageType = None,
      adl_buildCustData = None\<rparr>"

definition example_host :: "int option host" where
  "example_host = adl_utils_loaded bare_host"

definition fresh_page :: "int option page" where
  "fresh_page =
     \<lparr>adobeDataLayer = [],
      storage_items = Map.empty,
      storage_read_fails = False,
      storage_write_fails = False,
      console_log = [],
      console_error = [],
      timers = [],
      navigations = [],
      prevented = 0\<rparr>"


section \<open>Auxiliary facts\<close>

lemma js_or_undefined [simp]: "js_or B JUndefined b = b"
  by (simp add: js_or_def)

lemma js_or_idem: "js_or B (js_or B a b) b = js_or B a b"
  by (simp add: js_or_def)

lemmas page_updates = push_def log_message_def log_error_def setTimeout_navigate_def

lemma normalizeProduct_descriptor:
  assumes n: "js_or B n (JStr []) = n"
    and c: "js_or B c (JStr []) = c"
    and b: "js_or B b (JStr []) = b"
    and im: "js_or B im (JStr []) = im"
    and p: "js_or B (JNum p) (JNum (num_zero B)) = JNum p"
    and q: "js_or B (JNum q) (JNum (num_one B)) = JNum q"
  shows "normalizeProduct B (JObj
          [(''SKU'', JStr s), (''productID'', JStr s), (''productName'', n),
           (''productCategory'', c), (''price'', JNum p), (''quantity'', JNum q),
           (''brand'', b), (''image'', im)])
       = JObj
          [(''SKU'', JStr s), (''productID'', JStr s), (''productName'', n),
           (''productCategory'', c), (''price'', JNum p), (''quantity'', JNum q),
           (''brand'', b), (''image'', im)]"
proof -
  define out where "out = JObj
          [(''SKU'', JStr s), (''productID'', JStr s), (''productName'', n),
           (''productCategory'', c), (''price'', JNum p), (''quantity'', JNum q),
           (''brand'', b), (''image'', im)]"
  have ok: "js_truthy B out" "is_object out"
    by (simp_all add: out_def)
  have id: "js_or B (js_prop out ''productID'') (js_or B (js_prop out ''id'')
              (js_or B (js_prop out ''sku'') (js_or B (js_prop out ''SKU'') (JStr [])))) = JStr s"
    by (simp add: out_def js_or_def)
  have sid: "(if js_truthy B (JStr s) then JStr (js_toString B (JStr s)) else JStr []) = JStr s"
    by simp
  have name: "js_or B (js_prop out ''productName'') (js_or B (js_prop out ''name'')
              (js_or B (js_prop out ''product_name'') (JStr []))) = n"
    using n by (simp add: out_def)
  have category: "js_or B (js_prop out ''category'')
              (js_or B (js_prop out ''productCategory'') (JStr [])) = c"
    using c by (simp add: out_def)
  have price: "js_or B (JNum (js_Number B (js_or B (js_prop out ''price'')
                   (js_or B (js_prop out ''priceTotal'') (js_or B (js_prop out ''unitPrice'')
                   (JNum (num_zero B))))))) (JNum (num_zero B)) = JNum p"
    using p by (simp add: out_def js_or_def split: if_splits)
  have quantity: "js_or B (JNum (js_Number B (js_or B (js_prop out ''quantity'')
                   (js_or B (js_prop out ''qty'') (JNum (num_one B)))))) (JNum (num_one B)) = JNum q"
    using q by (simp add: out_def js_or_def split: if_splits)
  have brand: "js_or B (js_prop out ''brand'') (JStr []) = b"
    using b by (simp add: out_def)
  have image: "js_or B (js_prop out ''image'') (js_or B (js_prop out ''imageUrl'') (JStr [])) = im"
    using im by (simp add: out_def)
  have "normalizeProduct B out = out"
    unfolding normalizeProduct_def Let_def
    by (simp only: ok id sid name category price quantity brand image n c b im simp_thms if_False)
       (simp only: out_def)
  then show ?thesis by (simp only: out_def)
qed

lemma map_of_set_field:
  "map_of (set_field k v kvs) k' = (if k' = k then Some v else map_of kvs k')"
  by (induction kvs) auto

lemma js_prop_assign_other:
  "k' \<noteq> k \<Longrightarrow> js_prop (assign k v obj) k' = js_prop obj k'"
  by (cases obj) (simp_all add: map_of_set_field)

lemma eventCounts_append:
  "eventCounts B (xs @ ys) k = eventCounts B xs k + eventCounts B ys k"
  by (induction xs) simp_all


lemma firePageLoaded_log:
  "pageLoaded_event B options = Inr e \<Longrightarrow>
     adobeDataLayer (firePageLoaded B options st) = adobeDataLayer st @ [e]"
  by (simp add: firePageLoaded_def page_updates)

lemma firePageLoaded_storage:
  "storage_items (firePageLoaded B options st) = storage_items st"
  by (simp add: firePageLoaded_def page_updates split: sum.splits)

lemma persist_snapshot_log:
  "adobeDataLayer st = xs @ [obj] \<Longrightarrow>
     \<exists>e. adobeDataLayer (persist_snapshot B key obj st) = xs @ [e]
         \<and> js_prop e ''event'' = js_prop obj ''event''"
  by (auto simp: persist_snapshot_def with_timestamp_def Let_def setItem_def
           js_prop_assign_other split: sum.splits)

lemma localPush_log:
  "\<exists>e. adobeDataLayer (localPushToDataLayer B obj st) = adobeDataLayer st @ [e]
       \<and> js_prop e ''event'' = js_prop obj ''event''"
proof -
  let ?st1 = "push obj st"
  let ?st2 = "(case get_prop obj ''event'' of
                   Inl e \<Rightarrow> ?st1
                 | Inr ev \<Rightarrow>
                     log_message (''ACDL: '' @ js_toString B (js_or B ev (JStr ''unknown''))
                                    @ '' tracked:'') ?st1)"
  let ?st3 = "log_message ''ACDL Length:'' ?st2"
  have l3: "adobeDataLayer ?st3 = adobeDataLayer st @ [obj]"
    by (simp add: page_updates split: sum.splits)
  show ?thesis
    using persist_snapshot_log[OF l3, of B] l3
    by (auto simp: localPushToDataLayer_def Let_def split: sum.splits)
qed

lemma persist_snapshot_storage:
  "storage_write_fails st \<or> (\<exists>x. JSON_stringify B (with_timestamp B obj) = Inl x) \<Longrightarrow>
     storage_items (persist_snapshot B key obj st) = storage_items st"
  by (auto simp: persist_snapshot_def Let_def setItem_def split: sum.splits)

lemma localPush_storage:
  "storage_write_fails st \<or> (\<exists>x. JSON_stringify B (with_timestamp B obj) = Inl x) \<Longrightarrow>
     storage_items (localPushToDataLayer B obj st) = storage_items st"
proof -
  assume fails: "storage_write_fails st \<or> (\<exists>x. JSON_stringify B (with_timestamp B obj) = Inl x)"
  let ?st1 = "push obj st"
  let ?st2 = "(case get_prop obj ''event'' of
                   Inl e \<Rightarrow> ?st1
                 | Inr ev \<Rightarrow>
                     log_message (''ACDL: '' @ js_toString B (js_or B ev (JStr ''unknown''))
                                    @ '' tracked:'') ?st1)"
  let ?st3 = "log_message ''ACDL Length:'' ?st2"
  have s3: "storage_items ?st3 = storage_items st" "storage_write_fails ?st3 = storage_write_fails st"
    by (simp_all add: page_updates split: sum.splits)
  have "storage_items (persist_snapshot B key obj ?st3) = storage_items st" for key
    using persist_snapshot_storage[of ?st3 B obj key] fails s3 by simp
  then show ?thesis
    using s3 by (auto simp: localPushToDataLayer_def Let_def split: sum.splits)
qed


section \<open>The claims\<close>




text \<open>
  C2, as the code has it. The claim fails as stated: nothing suppresses a duplicate. Two
  calls of \<open>firePageLoaded\<close> on the page's fresh log leave two page-load events in it,
  and \<open>validateNoDuplicates\<close> reports them by returning false.
\<close>

theorem duplicate_pageLoad_counterexample:
  "eventCounts example_host
     (adobeDataLayer (firePageLoaded example_host JUndefined
        (firePageLoaded example_host JUndefined fresh_page))) ''pageLoaded'' = 2
   \<and> length (adobeDataLayer (firePageLoaded example_host JUndefined
        (firePageLoaded example_host JUndefined fresh_page))) = 2
   \<and> \<not> validateNoDuplicates example_host
        (firePageLoaded example_host JUndefined (firePageLoaded example_host JUndefined fresh_page))"
  by code_simp

text \<open>
  C2, amended. Every call of \<open>firePageLoaded\<close> that builds its event adds exactly one
  page-load event to the Append Log, so the log of a page holds exactly one page-load
  event when the page fires it once; a call whose event cannot be built adds none.
  Duplicates are not suppressed but reported: \<open>validateNoDuplicates\<close> is true exactly
  when the log holds at most one page-load event.
\<close>

theorem pageLoad_count_per_activation:
  "(pageLoaded_event B options = Inr e \<longrightarrow>
      eventCounts B (adobeDataLayer (firePageLoaded B options st)) ''pageLoaded''
        = Suc (eventCounts B (adobeDataLayer st) ''pageLoaded''))
   \<and> (pageLoaded_event B options = Inl x \<longrightarrow>
      adobeDataLayer (firePageLoaded B options st) = adobeDataLayer st)
   \<and> validateNoDuplicates B st = (eventCounts B (adobeDataLayer st) ''pageLoaded'' \<le> 1)"
proof (intro conjI impI)
  assume built: "pageLoaded_event B options = Inr e"
  have "js_truthy B e" "js_prop e ''event'' = JStr ''pageLoaded''"
    using built
    by (auto simp: pageLoaded_event_def pageLoaded_object_def Let_def
             split: if_splits jsval.splits)
  then have "eventCounts B [e] ''pageLoaded'' = 1"
    by simp
  then show "eventCounts B (adobeDataLayer (firePageLoaded B options st)) ''pageLoaded''
        = Suc (eventCounts B (adobeDataLayer st) ''pageLoaded'')"
    by (simp add: firePageLoaded_log[OF built] eventCounts_append)
next
  assume "pageLoaded_event B options = Inl x"
  then show "adobeDataLayer (firePageLoaded B options st) = adobeDataLayer st"
    by (simp add: firePageLoaded_def page_updates)
next
  show "validateNoDuplicates B st = (eventCounts B (adobeDataLayer st) ''pageLoaded'' \<le> 1)"
    by (auto simp: validateNoDuplicates_def)
qed

theorem pageLoad_count_per_activation_witness:
  "pageLoaded_event example_host JUndefined
     = Inr (pageLoaded_object (buildCustData example_host)
         [(''brand'', JStr ''velora''), (''channel'', JStr ''web|category''),
          (''pageName'', JStr ''plp''), (''pageType'', JStr ''category''),
          (''pageUrl'', JStr ''http://localhost:8000/plp.html'')] [])
   \<and> eventCounts example_host
        (adobeDataLayer (firePageLoaded example_host JUndefined fresh_page)) ''pageLoaded'' = 1
   \<and> validateNoDuplicates example_host (firePageLoaded example_host JUndefined fresh_page)
   \<and> pageLoaded_event example_host
        (JObj [(''pageType'', JStr ''pdp''),
               (''productDetails'', JObj [(''productID'', JNum (Some 1))])]) = Inl TypeError
   \<and> adobeDataLayer (firePageLoaded example_host
        (JObj [(''pageType'', JStr ''pdp''),
               (''productDetails'', JObj [(''productID'', JNum (Some 1))])]) fresh_page) = []"
proof -
  have built: "pageLoaded_event example_host JUndefined
     = Inr (pageLoaded_object (buildCustData example_host)
         [(''brand'', JStr ''velora''), (''channel'', JStr ''web|category''),
          (''pageName'', JStr ''plp''), (''pageType'', JStr ''category''),
          (''pageUrl'', JStr ''http://localhost:8000/plp.html'')] [])"
    by code_simp
  have thrown: "pageLoaded_event example_host
        (JObj [(''pageType'', JStr ''pdp''),
               (''productDetails'', JObj [(''productID'', JNum (Some 1))])]) = Inl TypeError"
    by code_simp
  have empty: "eventCounts example_host (adobeDataLayer fresh_page) ''pageLoaded'' = 0"
    "adobeDataLayer fresh_page = []"
    by (simp_all add: fresh_page_def)
  note counted = pageLoad_count_per_activation
         [of example_host JUndefined _ fresh_page, THEN conjunct1, THEN mp, OF built]
  note kept = pageLoad_count_per_activation
         [of example_host "JObj [(''pageType'', JStr ''pdp''),
               (''productDetails'', JObj [(''productID'', JNum (Some 1))])]" _ fresh_page TypeError,
          THEN conjunct2, THEN conjunct1, THEN mp, OF thrown]
  note reported = pageLoad_count_per_activation
         [of example_host JUndefined _ "firePageLoaded example_host JUndefined fresh_page",
          THEN conjunct2, THEN conjunct2]
  show ?thesis
    using built thrown counted kept reported empty by simp
qed



text \<open>
  C4. Product-descriptor normalization is idempotent: normalizing the result of a
  normalization gives that result again, for every input value (also for the values that
  normalize to \<open>null\<close>) and whatever the host's number conversions are.
\<close>

theorem normalizeProduct_idempotent:
  "normalizeProduct B (normalizeProduct B x) = normalizeProduct B x"
proof (cases "\<not> js_truthy B x \<or> \<not> is_object x")
  case True
  then show ?thesis by (simp add: normalizeProduct_def)
next
  case False
  have numor: "js_or B (JNum a) (JNum d) = JNum (if num_falsy B a then d else a)" for a d
    by (simp add: js_or_def)
  have str: "(if js_truthy B i then JStr (js_toString B i) else JStr [])
               = JStr (if js_truthy B i then js_toString B i else [])" for i
    by simp
  show ?thesis
    using False
    apply (simp only: normalizeProduct_def[of B x] Let_def if_False simp_thms str numor)
    apply (rule normalizeProduct_descriptor)
         apply (simp_all only: js_or_idem)
     apply (simp_all add: js_or_def)
    done
qed

theorem normalizeProduct_idempotent_witness:
  "normalizeProduct example_host (normalizeProduct example_host
      (JObj [(''id'', JNum (Some 14)), (''name'', JStr ''Classic Denim Jacket''),
             (''category'', JStr ''Jackets''), (''price'', JNum (Some 2499))]))
   = normalizeProduct example_host
      (JObj [(''id'', JNum (Some 14)), (''name'', JStr ''Classic Denim Jacket''),
             (''category'', JStr ''Jackets''), (''price'', JNum (Some 2499))])
   \<and> normalizeProduct example_host
      (JObj [(''id'', JNum (Some 14)), (''name'', JStr ''Classic Denim Jacket''),
             (''category'', JStr ''Jackets''), (''price'', JNum (Some 2499))])
   = JObj [(''SKU'', JStr ''14''), (''productID'', JStr ''14''),
           (''productName'', JStr ''Classic Denim Jacket''),
           (''productCategory'', JStr ''Jackets''), (''price'', JNum (Some 2499)),
           (''quantity'', JNum (Some 1)), (''brand'', JStr []), (''image'', JStr [])]"
proof (rule conjI)
  show "normalizeProduct example_host (normalizeProduct example_host
      (JObj [(''id'', JNum (Some 14)), (''name'', JStr ''Classic Denim Jacket''),
             (''category'', JStr ''Jackets''), (''price'', JNum (Some 2499))]))
   = normalizeProduct example_host
      (JObj [(''id'', JNum (Some 14)), (''name'', JStr ''Classic Denim Jacket''),
             (''category'', JStr ''Jackets''), (''price'', JNum (Some 2499))])"
    by (rule normalizeProduct_idempotent)
next
  show "normalizeProduct example_host
      (JObj [(''id'', JNum (Some 14)), (''name'', JStr ''Classic Denim Jacket''),
             (''category'', JStr ''Jackets''), (''price'', JNum (Some 2499))])
   = JObj [(''SKU'', JStr ''14''), (''productID'', JStr ''14''),
           (''productName'', JStr ''Classic Denim Jacket''),
           (''productCategory'', JStr ''Jackets''), (''price'', JNum (Some 2499)),
           (''quantity'', JNum (Some 1)), (''brand'', JStr []), (''image'', JStr [])]"
    by code_simp
qed

text \<open>
  C5 at the failing input. \<open>window.adl.trackLinkClick\<close> and
  \<open>window.adl.firePageLoaded\<close> append their event and leave the Persisted Snapshot
  unwritten, on the example page and on every other; the helper's
  \<open>localPushToDataLayer\<close> writes the snapshot entry of the event it appends.
\<close>

theorem adl_builders_leave_snapshot_unwritten:
  "map (\<lambda>e. js_prop e ''event'')
     (adobeDataLayer (trackLinkClick example_host (JStr ''Collection'') (JStr ''nav'')
        (JStr ''header-nav'') (JStr ''home'') fresh_page)) = [JStr ''linkClicked'']
   \<and> storage_items (trackLinkClick example_host (JStr ''Collection'') (JStr ''nav'')
        (JStr ''header-nav'') (JStr ''home'') fresh_page) ''aurora_lastLinkClicked'' = None
   \<and> map (\<lambda>e. js_prop e ''event'')
        (adobeDataLayer (firePageLoaded example_host JUndefined fresh_page)) = [JStr ''pageLoaded'']
   \<and> storage_items (firePageLoaded example_host JUndefined fresh_page) ''aurora_pageData'' = None
   \<and> storage_items (localPushToDataLayer example_host example_link fresh_page)
        ''aurora_lastLinkClicked'' = Some (json_text example_link)
   \<and> storage_items (trackLinkClick B a1 a2 a3 a4 st) = storage_items st
   \<and> storage_items (firePageLoaded B options st) = storage_items st"
proof -
  have "storage_items (trackLinkClick B a1 a2 a3 a4 st) = storage_items st"
    by (auto simp: trackLinkClick_def read_link_args_def call_preventDefault_def
          page_updates Let_def split: sum.splits if_splits jsval.splits)
  moreover have "storage_items (firePageLoaded B options st) = storage_items st"
    by (rule firePageLoaded_storage)
  moreover have
    "map (\<lambda>e. js_prop e ''event'')
       (adobeDataLayer (trackLinkClick example_host (JStr ''Collection'') (JStr ''nav'')
          (JStr ''header-nav'') (JStr ''home'') fresh_page)) = [JStr ''linkClicked'']
     \<and> storage_items (trackLinkClick example_host (JStr ''Collection'') (JStr ''nav'')
          (JStr ''header-nav'') (JStr ''home'') fresh_page) ''aurora_lastLinkClicked'' = None
     \<and> map (\<lambda>e. js_prop e ''event'')
          (adobeDataLayer (firePageLoaded example_host JUndefined fresh_page)) = [JStr ''pageLoaded'']
     \<and> storage_items (firePageLoaded example_host JUndefined fresh_page) ''aurora_pageData'' = None
     \<and> storage_items (localPushToDataLayer example_host example_link fresh_page)
          ''aurora_lastLinkClicked'' = Some (json_text example_link)"
    by code_simp
  ultimately show ?thesis by blast
qed




text \<open>
  C7. An event builder called without its identifying field reports an error and leaves
  the Append Log as it was. For \<open>trackLinkClick\<close> the link name is the first argument
  in the positional signature, \<open>linkName\<close> of the first argument when that is an options
  object, and \<open>linkName\<close> of the second argument when the first is a browser event; for
  \<open>trackAddToCart\<close> and \<open>trackRemoveFromCart\<close> the field is \<open>productID\<close> of the
  product. Absent means falsy, as the guards test it. In every case exactly one message
  goes to \<open>console.error\<close> and the log is unchanged.
\<close>

theorem builders_reject_missing_identifier:
  "(\<not> js_truthy B
        (if js_truthy B a1 \<and> is_object a1
         then js_prop (if js_truthy B (js_prop a1 ''preventDefault'')
                       then js_or B a2 (JObj []) else a1) ''linkName''
         else a1)
      \<longrightarrow> adobeDataLayer (trackLinkClick B a1 a2 a3 a4 st) = adobeDataLayer st
        \<and> (\<exists>m. console_error (trackLinkClick B a1 a2 a3 a4 st) = console_error st @ [m]))
   \<and> (\<not> js_truthy B (js_prop product ''productID'')
      \<longrightarrow> adobeDataLayer (trackAddToCart B product st) = adobeDataLayer st
        \<and> console_error (trackAddToCart B product st)
            = console_error st @ [''ADL: trackAddToCart requires product with productID'']
        \<and> adobeDataLayer (trackRemoveFromCart B product st) = adobeDataLayer st
        \<and> console_error (trackRemoveFromCart B product st)
            = console_error st @ [''ADL: trackRemoveFromCart requires product with productID''])"
proof (intro conjI impI)
  assume absent: "\<not> js_truthy B
        (if js_truthy B a1 \<and> is_object a1
         then js_prop (if js_truthy B (js_prop a1 ''preventDefault'')
                       then js_or B a2 (JObj []) else a1) ''linkName''
         else a1)"
  have rejected:
    "read_link_args B a1 a2 a3 a4 st = Inr (args, st1) \<Longrightarrow>
       \<not> js_truthy B (a_linkName args) \<and> adobeDataLayer st1 = adobeDataLayer st
       \<and> console_error st1 = console_error st" for args st1
    using absent
    by (auto simp: read_link_args_def options_args_def positional_args_def
          call_preventDefault_def js_or_def Let_def
          split: if_splits sum.splits jsval.splits)
  show "adobeDataLayer (trackLinkClick B a1 a2 a3 a4 st) = adobeDataLayer st"
    using rejected
    by (cases "read_link_args B a1 a2 a3 a4 st")
       (auto simp: trackLinkClick_def page_updates)
  show "\<exists>m. console_error (trackLinkClick B a1 a2 a3 a4 st) = console_error st @ [m]"
    using rejected
    by (cases "read_link_args B a1 a2 a3 a4 st")
       (auto simp: trackLinkClick_def page_updates)
next
  assume "\<not> js_truthy B (js_prop product ''productID'')"
  then show "adobeDataLayer (trackAddToCart B product st) = adobeDataLayer st"
    and "console_error (trackAddToCart B product st)
            = console_error st @ [''ADL: trackAddToCart requires product with productID'']"
    and "adobeDataLayer (trackRemoveFromCart B product st) = adobeDataLayer st"
    and "console_error (trackRemoveFromCart B product st)
            = console_error st @ [''ADL: trackRemoveFromCart requires product with productID'']"
    by (simp_all add: trackAddToCart_def trackRemoveFromCart_def page_updates)
qed

theorem builders_reject_missing_identifier_witness:
  "\<not> js_truthy example_host
        (if js_truthy example_host (JObj [(''linkType'', JStr ''cta'')])
            \<and> is_object (JObj [(''linkType'', JStr ''cta'')])
         then js_prop (if js_truthy example_host
                            (js_prop (JObj [(''linkType'', JStr ''cta'')]) ''preventDefault'')
                       then js_or example_host JUndefined (JObj [])
                       else JObj [(''linkType'', JStr ''cta'')]) ''linkName''
         else JObj [(''linkType'', JStr ''cta'')])
   \<and> adobeDataLayer (trackLinkClick example_host (JObj [(''linkType'', JStr ''cta'')])
        JUndefined JUndefined JUndefined fresh_page) = adobeDataLayer fresh_page
   \<and> console_error (trackLinkClick example_host (JObj [(''linkType'', JStr ''cta'')])
        JUndefined JUndefined JUndefined fresh_page) = [''ADL: trackLinkClick requires linkName'']
   \<and> \<not> js_truthy example_host (js_prop (JObj [(''productName'', JStr ''Slim Fit Chinos'')]) ''productID'')
   \<and> adobeDataLayer (trackAddToCart example_host
        (JObj [(''productName'', JStr ''Slim Fit Chinos'')]) fresh_page) = adobeDataLayer fresh_page
   \<and> adobeDataLayer (trackRemoveFromCart example_host
        (JObj [(''productName'', JStr ''Slim Fit Chinos'')]) fresh_page) = adobeDataLayer fresh_page"
proof -
  have absent: "\<not> js_truthy example_host
        (if js_truthy example_host (JObj [(''linkType'', JStr ''cta'')])
            \<and> is_object (JObj [(''linkType'', JStr ''cta'')])
         then js_prop (if js_truthy example_host
                            (js_prop (JObj [(''linkType'', JStr ''cta'')]) ''preventDefault'')
                       then js_or example_host JUndefined (JObj [])
                       else JObj [(''linkType'', JStr ''cta'')]) ''linkName''
         else JObj [(''linkType'', JStr ''cta'')])"
    by simp
  have no_id: "\<not> js_truthy example_host
        (js_prop (JObj [(''productName'', JStr ''Slim Fit Chinos'')]) ''productID'')"
    by simp
  have shown: "console_error (trackLinkClick example_host (JObj [(''linkType'', JStr ''cta'')])
        JUndefined JUndefined JUndefined fresh_page) = [''ADL: trackLinkClick requires linkName'']"
    by code_simp
  note rejects = builders_reject_missing_identifier
         [where B = example_host and ?a1.0 = "JObj [(''linkType'', JStr ''cta'')]"
            and ?a2.0 = JUndefined and ?a3.0 = JUndefined and ?a4.0 = JUndefined
            and st = fresh_page
            and product = "JObj [(''productName'', JStr ''Slim Fit Chinos'')]"]
  note link = rejects[THEN conjunct1, THEN mp, OF absent]
  note cart = rejects[THEN conjunct2, THEN mp, OF no_id]
  show ?thesis
    apply (intro conjI)
         apply (rule absent)
        apply (rule link[THEN conjunct1])
       apply (rule shown)
      apply (rule no_id)
     apply (rule cart[THEN conjunct1])
    apply (rule cart[THEN conjunct2, THEN conjunct2, THEN conjunct1])
    done
qed

text \<open>
  C8, as the code has it. The claim fails as stated: a call with a browser event and a
  target URL but no link name cancels the default navigation and then returns at the
  link-name guard, so nothing is scheduled and nothing is appended; and no call of
  \<open>trackLinkClick\<close> writes the storage.
\<close>

theorem event_link_click_counterexample:
  "prevented (trackLinkClick example_host (JObj [(''preventDefault'', JFun ''preventDefault'')])
      (JObj [(''linkURL'', JStr ''plp.html'')]) JUndefined JUndefined fresh_page) = 1
   \<and> timers (trackLinkClick example_host (JObj [(''preventDefault'', JFun ''preventDefault'')])
      (JObj [(''linkURL'', JStr ''plp.html'')]) JUndefined JUndefined fresh_page) = []
   \<and> adobeDataLayer (trackLinkClick example_host (JObj [(''preventDefault'', JFun ''preventDefault'')])
      (JObj [(''linkURL'', JStr ''plp.html'')]) JUndefined JUndefined fresh_page) = []
   \<and> timers (trackLinkClick example_host (JObj [(''preventDefault'', JFun ''preventDefault'')])
      (JObj [(''linkName'', JStr ''Collection''), (''linkURL'', JStr ''plp.html'')])
      JUndefined JUndefined fresh_page) = [(300, JStr ''plp.html'')]
   \<and> storage_items (trackLinkClick example_host (JObj [(''preventDefault'', JFun ''preventDefault'')])
      (JObj [(''linkName'', JStr ''Collection''), (''linkURL'', JStr ''plp.html'')])
      JUndefined JUndefined fresh_page) ''aurora_lastLinkClicked'' = None"
  by code_simp

text \<open>
  C8, amended. For every call of \<open>trackLinkClick\<close> that carries a browser event (an
  object whose \<open>preventDefault\<close> is a function) and options with a link name, a target
  URL and navigation not switched off (\<open>shouldNavigate\<close> is not \<open>false\<close>), the call
  cancels the default navigation once, sets one timer of 300 ms that navigates to the
  target URL, and appends the link-click event to the log; when the call returns the
  event is in the log and no navigation has been made yet, and when the pending timers
  run the navigation to the target URL is made with the event in the log.
\<close>

theorem event_link_click_schedules_navigation:
  assumes event: "js_truthy B ev" "is_object ev" "js_prop ev ''preventDefault'' = JFun f"
    and name: "js_truthy B (js_prop opts ''linkName'')"
    and url: "js_truthy B (js_prop opts ''linkURL'')"
    and nav: "js_prop opts ''shouldNavigate'' \<noteq> JBool False"
  shows "prevented (trackLinkClick B ev opts a3 a4 st) = Suc (prevented st)
       \<and> timers (trackLinkClick B ev opts a3 a4 st) = timers st @ [(300, js_prop opts ''linkURL'')]
       \<and> adobeDataLayer (trackLinkClick B ev opts a3 a4 st)
           = adobeDataLayer st @ [linkClicked_event B (options_args B opts)]
       \<and> navigations (trackLinkClick B ev opts a3 a4 st) = navigations st
       \<and> navigations (run_pending_timers (trackLinkClick B ev opts a3 a4 st))
           = navigations (run_pending_timers st) @ [js_prop opts ''linkURL'']
       \<and> adobeDataLayer (run_pending_timers (trackLinkClick B ev opts a3 a4 st))
           = adobeDataLayer st @ [linkClicked_event B (options_args B opts)]"
proof -
  have opts: "js_or B opts (JObj []) = opts"
    using url by (cases opts) (simp_all add: js_or_def)
  have args: "a_linkName (options_args B opts) = js_prop opts ''linkName''"
    "a_linkURL (options_args B opts) = js_prop opts ''linkURL''"
    "a_shouldNavigate (options_args B opts)"
    using name url nav by (simp_all add: options_args_def js_or_def)
  have branch: "read_link_args B ev opts a3 a4 st
                  = Inr (options_args B opts, st\<lparr>prevented := Suc (prevented st)\<rparr>)"
    using event url
    by (simp add: read_link_args_def opts args call_preventDefault_def Let_def)
  show ?thesis
    using name url
    by (simp add: trackLinkClick_def branch args page_updates Let_def run_pending_timers_def)
qed

theorem event_link_click_schedules_navigation_witness:
  "js_truthy example_host (JObj [(''preventDefault'', JFun ''preventDefault'')])
   \<and> is_object (JObj [(''preventDefault'', JFun ''preventDefault'')] :: int option jsval)
   \<and> js_truthy example_host
        (js_prop (JObj [(''linkName'', JStr ''Collection''), (''linkURL'', JStr ''plp.html'')]) ''linkName'')
   \<and> js_truthy example_host
        (js_prop (JObj [(''linkName'', JStr ''Collection''), (''linkURL'', JStr ''plp.html'')]) ''linkURL'')
   \<and> prevented (trackLinkClick example_host (JObj [(''preventDefault'', JFun ''preventDefault'')])
        (JObj [(''linkName'', JStr ''Collection''), (''linkURL'', JStr ''plp.html'')])
        JUndefined JUndefined fresh_page) = Suc (prevented fresh_page)
   \<and> timers (trackLinkClick example_host (JObj [(''preventDefault'', JFun ''preventDefault'')])
        (JObj [(''linkName'', JStr ''Collection''), (''linkURL'', JStr ''plp.html'')])
        JUndefined JUndefined fresh_page) = timers fresh_page @ [(300, JStr ''plp.html'')]
   \<and> navigations (run_pending_timers
        (trackLinkClick example_host (JObj [(''preventDefault'', JFun ''preventDefault'')])
          (JObj [(''linkName'', JStr ''Collection''), (''linkURL'', JStr ''plp.html'')])
          JUndefined JUndefined fresh_page)) = [JStr ''plp.html'']"
proof -
  let ?ev = "JObj [(''preventDefault'', JFun ''preventDefault'')] :: int option jsval"
  let ?opts = "JObj [(''linkName'', JStr ''Collection''), (''linkURL'', JStr ''plp.html'')]
                 :: int option jsval"
  have h1: "js_truthy example_host ?ev" and h2: "is_object ?ev"
    and h3: "js_prop ?ev ''preventDefault'' = JFun ''preventDefault''"
    and h4: "js_truthy example_host (js_prop ?opts ''linkName'')"
    and h5: "js_truthy example_host (js_prop ?opts ''linkURL'')"
    and h6: "js_prop ?opts ''shouldNavigate'' \<noteq> JBool False"
    by simp_all
  from event_link_click_schedules_navigation
         [OF h1 h2 h3 h4 h5 h6, of JUndefined JUndefined fresh_page]
  show ?thesis
    using h1 h2 h4 h5 by (simp add: run_pending_timers_def fresh_page_def)
qed

text \<open>
  C9. Storage failures are swallowed. A push through \<open>localPushToDataLayer\<close> always
  appends its event, and when the storage write or the serialization fails the storage
  is left as it was and the event stays in the log; \<open>persistProductListItems\<close> with a
  failing write changes nothing; a document that does not parse reads as \<open>null\<close>, like
  a key that is not stored; and with a session storage whose reads throw the unified
  view is the one of an empty storage.
\<close>

theorem storage_failures_are_swallowed:
  "(\<exists>e. adobeDataLayer (localPushToDataLayer B obj st) = adobeDataLayer st @ [e]
        \<and> js_prop e ''event'' = js_prop obj ''event'')
   \<and> (storage_write_fails st \<or> (\<exists>x. JSON_stringify B (with_timestamp B obj) = Inl x)
        \<longrightarrow> storage_items (localPushToDataLayer B obj st) = storage_items st)
   \<and> (storage_write_fails st \<longrightarrow> persistProductListItems B list st = st)
   \<and> (JSON_parse B s = Inl x \<longrightarrow> safeJSONParse B (Some s) = safeJSONParse B None)
   \<and> fst (getUnifiedXDM B (st\<lparr>storage_read_fails := True\<rparr>))
       = fst (getUnifiedXDM B (st\<lparr>storage_items := Map.empty, storage_read_fails := False\<rparr>))"
proof (intro conjI impI)
  show "\<exists>e. adobeDataLayer (localPushToDataLayer B obj st) = adobeDataLayer st @ [e]
        \<and> js_prop e ''event'' = js_prop obj ''event''"
    by (rule localPush_log)
next
  assume "storage_write_fails st \<or> (\<exists>x. JSON_stringify B (with_timestamp B obj) = Inl x)"
  then show "storage_items (localPushToDataLayer B obj st) = storage_items st"
    by (rule localPush_storage)
next
  assume "storage_write_fails st"
  then show "persistProductListItems B list st = st"
    by (simp add: persistProductListItems_def setItem_def Let_def)
next
  assume "JSON_parse B s = Inl x"
  then show "safeJSONParse B (Some s) = safeJSONParse B None"
    by (simp add: safeJSONParse_def)
next
  let ?F = "st\<lparr>storage_read_fails := True\<rparr>"
  let ?E = "st\<lparr>storage_items := Map.empty, storage_read_fails := False\<rparr>"
  have details: "buildPageDetails B ?F = buildPageDetails B ?E"
    by (simp add: buildPageDetails_def getItem_def safeJSONParse_def findLatestDLEvent_def)
  have pdp: "buildProductListItemsFromPDP B ?F = buildProductListItemsFromPDP B ?E"
    by (simp add: buildProductListItemsFromPDP_def findLatestDLEvent_def)
  have stored: "buildProductListItemsFromCartOrStorage B ?F = None"
    "buildProductListItemsFromCartOrStorage B ?E = None"
    by (simp_all add: buildProductListItemsFromCartOrStorage_def stored_products_def
          cart_products_def getItem_def safeJSONParse_def or_list_def js_or_def)
  have order: "buildOrderDetailsIfPresent B s1 = buildOrderDetailsIfPresent B s2"
    if "adobeDataLayer s1 = adobeDataLayer s2" "storage_read_fails s1"
      "\<not> storage_read_fails s2" "storage_items s2 ''velora_order'' = None" for s1 s2
    using that
    by (simp add: buildOrderDetailsIfPresent_def getItem_def safeJSONParse_def
             split: option.splits sum.splits)
  have order_plain: "buildOrderDetailsIfPresent B ?F = buildOrderDetailsIfPresent B ?E"
    by (rule order) simp_all
  have order_persisted:
    "buildOrderDetailsIfPresent B (persistProductListItems B l ?F)
       = buildOrderDetailsIfPresent B (persistProductListItems B l ?E)" for l
    by (rule order)
       (simp_all add: persistProductListItems_def setItem_def Let_def split: option.splits)
  show "fst (getUnifiedXDM B ?F) = fst (getUnifiedXDM B ?E)"
  proof (cases "buildPageDetails B ?E")
    case (Inl x)
    then show ?thesis
      using details by (simp add: getUnifiedXDM_def buildUnifiedXDM_def)
  next
    case (Inr d)
    show ?thesis
    proof (cases "str_includes (loc_pathname B) ''pdp'' \<or> js_truthy B (getQueryParam B ''id'')")
      case False
      then show ?thesis
        using Inr details stored order_plain
        by (simp add: getUnifiedXDM_def buildUnifiedXDM_def Let_def)
    next
      case True
      show ?thesis
      proof (cases "buildProductListItemsFromPDP B ?E")
        case None
        then show ?thesis
          using True Inr details pdp stored order_plain
          by (simp add: getUnifiedXDM_def buildUnifiedXDM_def Let_def)
      next
        case (Some l)
        then show ?thesis
          using True Inr details pdp stored order_plain order_persisted
          by (cases l) (simp_all add: getUnifiedXDM_def buildUnifiedXDM_def Let_def)
      qed
    qed
  qed
qed

theorem storage_failures_are_swallowed_witness:
  "storage_write_fails (fresh_page\<lparr>storage_write_fails := True\<rparr>)
   \<and> adobeDataLayer (localPushToDataLayer example_host example_link
        (fresh_page\<lparr>storage_write_fails := True\<rparr>)) = [example_link]
   \<and> storage_items (localPushToDataLayer example_host example_link
        (fresh_page\<lparr>storage_write_fails := True\<rparr>)) ''aurora_lastLinkClicked'' = None
   \<and> JSON_parse example_host ''{broken'' = Inl SyntaxError
   \<and> safeJSONParse example_host (Some ''{broken'') = JNull"
proof -
  let ?st = "fresh_page\<lparr>storage_write_fails := True\<rparr>"
  have fails: "storage_write_fails ?st \<or>
      (\<exists>x. JSON_stringify example_host (with_timestamp example_host example_link) = Inl x)"
    by simp
  have broken: "JSON_parse example_host ''{broken'' = Inl SyntaxError"
    by code_simp
  note facts = storage_failures_are_swallowed
    [of example_host example_link ?st _ "''{broken''" SyntaxError]
  have kept: "storage_items (localPushToDataLayer example_host example_link ?st)
                = storage_items ?st"
    using facts[THEN conjunct2, THEN conjunct1, THEN mp, OF fails] .
  have unparsed: "safeJSONParse example_host (Some ''{broken'') = safeJSONParse example_host None"
    using facts[THEN conjunct2, THEN conjunct2, THEN conjunct2, THEN conjunct1, THEN mp, OF broken] .
  have appended: "adobeDataLayer (localPushToDataLayer example_host example_link ?st)
                    = [example_link]"
    by code_simp
  show ?thesis
    using kept unparsed appended broken
    by (simp add: fresh_page_def safeJSONParse_def)
qed

text \<open>
  C10. A call of \<open>trackLinkClick\<close> in the positional signature (the first argument is
  not an object) never navigates and never calls \<open>preventDefault\<close>: the branch sets the
  link URL to the empty string and the navigation flag to false, so no timer is set, the
  pending timers navigate where they did before, and the storage is untouched. With a
  truthy link name the call appends the link-click event and logs it, and nothing else;
  with a falsy one it only reports the error.
\<close>

theorem positional_link_click_never_navigates:
  assumes "\<not> (js_truthy B a1 \<and> is_object a1)"
  shows "a_linkURL (positional_args B a1 a2 a3 a4) = JStr []
       \<and> \<not> a_shouldNavigate (positional_args B a1 a2 a3 a4)
       \<and> timers (trackLinkClick B a1 a2 a3 a4 st) = timers st
       \<and> navigations (run_pending_timers (trackLinkClick B a1 a2 a3 a4 st))
           = navigations (run_pending_timers st)
       \<and> prevented (trackLinkClick B a1 a2 a3 a4 st) = prevented st
       \<and> storage_items (trackLinkClick B a1 a2 a3 a4 st) = storage_items st
       \<and> adobeDataLayer (trackLinkClick B a1 a2 a3 a4 st)
           = (if js_truthy B a1
              then adobeDataLayer st @ [linkClicked_event B (positional_args B a1 a2 a3 a4)]
              else adobeDataLayer st)
       \<and> console_log (trackLinkClick B a1 a2 a3 a4 st)
           = (if js_truthy B a1 then console_log st @ [''ADL: linkClicked event fired:'']
              else console_log st)"
proof -
  have branch: "read_link_args B a1 a2 a3 a4 st = Inr (positional_args B a1 a2 a3 a4, st)"
    using assms by (auto simp: read_link_args_def)
  have name: "a_linkName (positional_args B a1 a2 a3 a4) = a1"
    and url: "a_linkURL (positional_args B a1 a2 a3 a4) = JStr []"
    and flag: "\<not> a_shouldNavigate (positional_args B a1 a2 a3 a4)"
    by (simp_all add: positional_args_def)
  show ?thesis
    by (simp add: trackLinkClick_def branch name url flag page_updates Let_def
          run_pending_timers_def)
qed

theorem positional_link_click_never_navigates_witness:
  "\<not> (js_truthy example_host (JStr ''Shop Now'') \<and> is_object (JStr ''Shop Now'' :: int option jsval))
   \<and> timers (trackLinkClick example_host (JStr ''Shop Now'') (JStr ''cta'')
               (JStr ''hero-banner'') (JStr ''home'') fresh_page) = []
   \<and> prevented (trackLinkClick example_host (JStr ''Shop Now'') (JStr ''cta'')
               (JStr ''hero-banner'') (JStr ''home'') fresh_page) = 0
   \<and> map (\<lambda>e. js_prop e ''event'')
        (adobeDataLayer (trackLinkClick example_host (JStr ''Shop Now'') (JStr ''cta'')
               (JStr ''hero-banner'') (JStr ''home'') fresh_page)) = [JStr ''linkClicked'']"
proof -
  have positional:
    "\<not> (js_truthy example_host (JStr ''Shop Now'') \<and> is_object (JStr ''Shop Now'' :: int option jsval))"
    by simp
  note facts = positional_link_click_never_navigates
    [OF positional, of "JStr ''cta''" "JStr ''hero-banner''" "JStr ''home''" fresh_page]
  have t: "timers (trackLinkClick example_host (JStr ''Shop Now'') (JStr ''cta'')
               (JStr ''hero-banner'') (JStr ''home'') fresh_page) = timers fresh_page"
    using facts by blast
  have p: "prevented (trackLinkClick example_host (JStr ''Shop Now'') (JStr ''cta'')
               (JStr ''hero-banner'') (JStr ''home'') fresh_page) = prevented fresh_page"
    using facts by blast
  have e: "map (\<lambda>e. js_prop e ''event'')
        (adobeDataLayer (trackLinkClick example_host (JStr ''Shop Now'') (JStr ''cta'')
               (JStr ''hero-banner'') (JStr ''home'') fresh_page)) = [JStr ''linkClicked'']"
    by code_simp
  show ?thesis
    using positional t p e by (simp add: fresh_page_def)
qed

end
